theory Spec2Isabelle
  imports Complex_Main "HOL-Library.Multiset"
begin

section \<open>JavaScript numbers\<close>

text \<open>
  A JavaScript number is a finite value, NaN or one of the two infinities. Finite
  values are taken as exact rationals: rounding to 53 bits, overflow and the sign of
  zero are left out, so a zero divisor is the positive zero. The operations therefore
  agree with the doubles of the program only where the double result is exact, as it
  is for the small integers and halves the examples below compute with.
\<close>

datatype jsnum = Num rat | NaN | PosInf | NegInf

fun js_add :: "jsnum \<Rightarrow> jsnum \<Rightarrow> jsnum" where
  "js_add (Num a) (Num b) = Num (a + b)"
| "js_add NaN _ = NaN"
| "js_add _ NaN = NaN"
| "js_add PosInf NegInf = NaN"
| "js_add NegInf PosInf = NaN"
| "js_add PosInf _ = PosInf"
| "js_add _ PosInf = PosInf"
| "js_add NegInf _ = NegInf"
| "js_add _ NegInf = NegInf"

fun js_mul :: "jsnum \<Rightarrow> jsnum \<Rightarrow> jsnum" where
  "js_mul (Num a) (Num b) = Num (a * b)"
| "js_mul NaN _ = NaN"
| "js_mul _ NaN = NaN"
| "js_mul (Num a) PosInf = (if a = 0 then NaN else if 0 < a then PosInf else NegInf)"
| "js_mul (Num a) NegInf = (if a = 0 then NaN else if 0 < a then NegInf else PosInf)"
| "js_mul PosInf (Num b) = (if b = 0 then NaN else if 0 < b then PosInf else NegInf)"
| "js_mul NegInf (Num b) = (if b = 0 then NaN else if 0 < b then NegInf else PosInf)"
| "js_mul PosInf PosInf = PosInf"
| "js_mul NegInf NegInf = PosInf"
| "js_mul PosInf NegInf = NegInf"
| "js_mul NegInf PosInf = NegInf"

fun js_div :: "jsnum \<Rightarrow> jsnum \<Rightarrow> jsnum" where
  "js_div (Num a) (Num b) =
     (if b \<noteq> 0 then Num (a / b)
      else if a = 0 then NaN else if 0 < a then PosInf else NegInf)"
| "js_div NaN _ = NaN"
| "js_div _ NaN = NaN"
| "js_div (Num a) PosInf = Num 0"
| "js_div (Num a) NegInf = Num 0"
| "js_div PosInf (Num b) = (if 0 \<le> b then PosInf else NegInf)"
| "js_div NegInf (Num b) = (if 0 \<le> b then NegInf else PosInf)"
| "js_div PosInf _ = NaN"
| "js_div NegInf _ = NaN"

fun js_lt :: "jsnum \<Rightarrow> jsnum \<Rightarrow> bool" where
  "js_lt (Num a) (Num b) = (a < b)"
| "js_lt NaN _ = False"
| "js_lt _ NaN = False"
| "js_lt NegInf NegInf = False"
| "js_lt NegInf _ = True"
| "js_lt PosInf _ = False"
| "js_lt (Num a) PosInf = True"
| "js_lt (Num a) NegInf = False"

definition js_gt :: "jsnum \<Rightarrow> jsnum \<Rightarrow> bool" where
  "js_gt a b = js_lt b a"

fun isNaN :: "jsnum \<Rightarrow> bool" where
  "isNaN NaN = True"
| "isNaN _ = False"

text \<open>
  \<open>x.toFixed(8)\<close> renders a number with eight decimals, the nearest such decimal and
  the one larger in magnitude on a tie; NaN and the infinities render as themselves.
  The string is represented by the number it denotes.
\<close>

definition round8 :: "rat \<Rightarrow> rat" where
  "round8 x = sgn x * of_int \<lfloor>\<bar>x\<bar> * 100000000 + 1 / 2\<rfloor> / 100000000"

fun toFixed8 :: "jsnum \<Rightarrow> jsnum" where
  "toFixed8 (Num x) = Num (round8 x)"
| "toFixed8 n = n"

section \<open>Redis sorted sets\<close>

text \<open>
  A sorted set is a list of (score, member) pairs with distinct members. Range reads
  return members by ascending score.
\<close>

type_synonym 'a zset = "(int \<times> 'a) list"

definition in_score_range :: "int \<Rightarrow> int \<Rightarrow> int \<times> 'a \<Rightarrow> bool" where
  "in_score_range lo hi e = (lo \<le> fst e \<and> fst e \<le> hi)"

definition zrangebyscore :: "'a zset \<Rightarrow> int \<Rightarrow> int \<Rightarrow> 'a list" where
  "zrangebyscore z lo hi = map snd (sort_key fst (filter (in_score_range lo hi) z))"

definition zremrangebyscore :: "'a zset \<Rightarrow> int \<Rightarrow> int \<Rightarrow> 'a zset" where
  "zremrangebyscore z lo hi = filter (\<lambda>e. \<not> in_score_range lo hi e) z"

definition zcard :: "'a zset \<Rightarrow> nat" where
  "zcard z = length z"

definition zadd :: "'a zset \<Rightarrow> int \<Rightarrow> 'a \<Rightarrow> 'a zset" where
  "zadd z score member = (score, member) # filter (\<lambda>e. snd e \<noteq> member) z"

section \<open>Stream aggregator\<close>

definition AGGREGATION_INTERVAL :: int where "AGGREGATION_INTERVAL = 10000"
definition WINDOW_SIZE :: int where "WINDOW_SIZE = 30000"
definition BUFFER_KEY_PREFIX :: string where "BUFFER_KEY_PREFIX = ''buffer:trades:''"
definition MAX_CONSECUTIVE_ERRORS :: nat where "MAX_CONSECUTIVE_ERRORS = 10"
definition USD_PAIRS :: "string list" where
  "USD_PAIRS = [''btc-usd'', ''xmr-usd'', ''eth-usd'']"
definition RUB_PAIRS :: "string list" where
  "RUB_PAIRS = [''btc-rub'', ''xmr-rub'', ''eth-rub'']"

text \<open>
  A buffered trade is the JSON parse of a member written by \<open>processBatch\<close>, whose score
  is the trade's timestamp. JSON carries finite numbers only.
\<close>

record TradeEntry =
  t_price :: rat
  t_volume :: rat
  t_timestamp :: int
  t_exchange :: string

record VwapResult =
  v_pair :: string
  v_price :: jsnum
  v_volume :: rat
  v_sources :: "string list"
  v_timestamp :: int

text \<open>The decimal strings of a row are represented by the numbers they denote.\<close>

record CreatePriceHistoryInput =
  h_pair :: string
  h_price :: jsnum
  h_timestamp :: int
  h_method :: string
  h_sources :: "string list"
  h_volume :: "jsnum option"

record CreateOhlcvCandleInput =
  k_pair :: string
  k_timestamp :: int
  k_open :: jsnum
  k_high :: jsnum
  k_low :: jsnum
  k_close :: jsnum
  k_volume :: jsnum
  k_vwap :: "jsnum option"
  k_trade_count :: nat

record CachedPrice =
  c_price :: jsnum
  c_timestamp :: int
  c_sources :: "string list"

datatype error = RedisError | DatabaseError

text \<open>
  The stores the aggregators talk to: the Redis buffers, cache and channels, the
  \<open>price_history\<close> table and the candle tables. While a store is down each of its
  commands throws. \<open>logged\<close> holds the errors the aggregators caught and passed to
  \<open>logger.error\<close>, each with its pair.
\<close>

record world =
  redis_up :: bool
  buffers :: "string \<Rightarrow> TradeEntry zset"
  cache :: "string \<Rightarrow> (nat \<times> CachedPrice) option"
  published :: "(string \<times> CachedPrice) list"
  db_up :: bool
  price_history :: "CreatePriceHistoryInput list"
  candle_tables :: "string \<Rightarrow> CreateOhlcvCandleInput list"
  logged :: "(error \<times> string) list"

datatype 'a outcome = Return 'a world | Throw error world

record StreamAggregatorProcess =
  isRunning :: bool
  consecutiveErrors :: nat
  lastErrorTime :: int
  lastSuccessfulAggregation :: int
  aggregationCount :: nat

text \<open>\<open>sources.add(x)\<close> on a JavaScript Set, which keeps insertion order.\<close>

definition set_add :: "'a list \<Rightarrow> 'a \<Rightarrow> 'a list" where
  "set_add s x = (if x \<in> set s then s else s @ [x])"

definition vwap_step :: "TradeEntry \<Rightarrow> rat \<times> rat \<times> string list \<Rightarrow> rat \<times> rat \<times> string list" where
  "vwap_step trade acc =
     (case acc of (totalPriceVolume, totalVolume, sources) \<Rightarrow>
        (totalPriceVolume + t_price trade * t_volume trade,
         totalVolume + t_volume trade,
         set_add sources (t_exchange trade)))"

definition calculateVwap :: "int \<Rightarrow> string \<Rightarrow> world \<Rightarrow> VwapResult option outcome" where
  "calculateVwap now pair w =
     (let bufferKey = BUFFER_KEY_PREFIX @ pair;
          windowStart = now - WINDOW_SIZE
      in if \<not> redis_up w then Throw RedisError w
         else
           let trades = zrangebyscore (buffers w bufferKey) windowStart now
           in if length trades = 0 then Return None w
              else
                (case fold vwap_step trades (0, 0, []) of
                   (totalPriceVolume, totalVolume, sources) \<Rightarrow>
                     let vwapPrice = js_div (Num totalPriceVolume) (Num totalVolume);
                         w' = w\<lparr>buffers := (buffers w)
                                 (bufferKey := zremrangebyscore (buffers w bufferKey) 0 windowStart)\<rparr>
                     in Return (Some \<lparr>v_pair = pair, v_price = vwapPrice, v_volume = totalVolume,
                                      v_sources = sources, v_timestamp = now\<rparr>) w'))"

text \<open>\<open>s.replace(pat, rep)\<close> with a string pattern: the first occurrence only.\<close>

fun replace :: "string \<Rightarrow> string \<Rightarrow> string \<Rightarrow> string" where
  "replace pat rep [] = (if pat = [] then rep else [])"
| "replace pat rep (c # cs) =
     (if take (length pat) (c # cs) = pat then rep @ drop (length pat) (c # cs)
      else c # replace pat rep cs)"

definition cachePrice :: "VwapResult \<Rightarrow> world \<Rightarrow> unit outcome" where
  "cachePrice vwap w =
     (let cacheKey = ''price:'' @ v_pair vwap;
          cacheValue = \<lparr>c_price = toFixed8 (v_price vwap), c_timestamp = v_timestamp vwap,
                        c_sources = v_sources vwap\<rparr>
      in if \<not> redis_up w then Throw RedisError w
         else Return () (w\<lparr>cache := (cache w)(cacheKey := Some (60, cacheValue)),
                          published := published w @ [(cacheKey, cacheValue)]\<rparr>))"

definition create :: "CreatePriceHistoryInput \<Rightarrow> world \<Rightarrow> unit outcome" where
  "create row w =
     (if \<not> db_up w then Throw DatabaseError w
      else Return () (w\<lparr>price_history := price_history w @ [row]\<rparr>))"

text \<open>
  \<open>usdRubRate\<close> is what \<open>cbrRate.getRate()\<close> returned for this call.
\<close>

definition savePrices :: "jsnum \<Rightarrow> VwapResult \<Rightarrow> world \<Rightarrow> unit outcome" where
  "savePrices usdRubRate vwap w =
     (let usdInput = \<lparr>h_pair = v_pair vwap, h_price = toFixed8 (v_price vwap),
                      h_timestamp = v_timestamp vwap, h_method = ''vwap'',
                      h_sources = v_sources vwap,
                      h_volume = Some (toFixed8 (Num (v_volume vwap)))\<rparr>
      in case create usdInput w of
           Throw e w1 \<Rightarrow> Throw e w1
         | Return _ w1 \<Rightarrow>
             if js_gt usdRubRate (Num 0) then
               let rubPair = replace ''-usd'' ''-rub'' (v_pair vwap);
                   rubPrice = js_mul (v_price vwap) usdRubRate;
                   rubInput = \<lparr>h_pair = rubPair, h_price = toFixed8 rubPrice,
                               h_timestamp = v_timestamp vwap, h_method = ''vwap'',
                               h_sources = v_sources vwap @ [''cbr''],
                               h_volume = Some (toFixed8 (Num (v_volume vwap)))\<rparr>
               in case create rubInput w1 of
                    Throw e w2 \<Rightarrow> Throw e w2
                  | Return _ w2 \<Rightarrow>
                      cachePrice (vwap\<lparr>v_pair := rubPair, v_price := rubPrice,
                                       v_sources := v_sources vwap @ [''cbr'']\<rparr>) w2
             else Return () w1)"

text \<open>
  One pass of the loop body of \<open>aggregate\<close>: an exception of any of the three calls is
  caught and logged, and the loop goes on with the next pair.
\<close>

definition log_error :: "error \<Rightarrow> string \<Rightarrow> world \<Rightarrow> world" where
  "log_error e pair w = w\<lparr>logged := logged w @ [(e, pair)]\<rparr>"

definition aggregate_pair ::
  "int \<Rightarrow> jsnum \<Rightarrow> string \<Rightarrow> world \<times> StreamAggregatorProcess \<Rightarrow> world \<times> StreamAggregatorProcess" where
  "aggregate_pair now usdRubRate pair st =
     (case st of (w, p) \<Rightarrow>
        (case calculateVwap now pair w of
           Throw e w1 \<Rightarrow> (log_error e pair w1, p)
         | Return None w1 \<Rightarrow> (w1, p)
         | Return (Some vwap) w1 \<Rightarrow>
             (case savePrices usdRubRate vwap w1 of
                Throw e w2 \<Rightarrow> (log_error e pair w2, p)
              | Return _ w2 \<Rightarrow>
                  (case cachePrice vwap w2 of
                     Throw e w3 \<Rightarrow> (log_error e pair w3, p)
                   | Return _ w3 \<Rightarrow> (w3, p\<lparr>aggregationCount := aggregationCount p + 1\<rparr>)))))"

text \<open>A tick at wall-clock time \<open>now\<close>; the clock is read as the same instant throughout.\<close>

definition aggregate ::
  "int \<Rightarrow> jsnum \<Rightarrow> world \<times> StreamAggregatorProcess \<Rightarrow> world \<times> StreamAggregatorProcess" where
  "aggregate now usdRubRate st =
     (case fold (aggregate_pair now usdRubRate) USD_PAIRS st of
        (w, p) \<Rightarrow> (w, p\<lparr>lastSuccessfulAggregation := now\<rparr>))"

datatype check_status = Pass | Warn | Fail
datatype health = Healthy | Degraded | Unhealthy

definition checks :: "int \<Rightarrow> StreamAggregatorProcess \<Rightarrow> check_status list" where
  "checks now p =
     (let timeSinceLastAggregation = now - lastSuccessfulAggregation p
      in [if isRunning p then Pass else Fail,
          if timeSinceLastAggregation < AGGREGATION_INTERVAL * 3 then Pass else Warn,
          if consecutiveErrors p < 5 then Pass
          else if consecutiveErrors p < 10 then Warn else Fail])"

definition checkHealth :: "int \<Rightarrow> StreamAggregatorProcess \<Rightarrow> health" where
  "checkHealth now p =
     (let hasFailure = list_ex (\<lambda>c. c = Fail) (checks now p);
          hasWarning = list_ex (\<lambda>c. c = Warn) (checks now p)
      in if hasFailure then Unhealthy else if hasWarning then Degraded else Healthy)"

text \<open>
  \<open>processBatch\<close> for one venue: each entry is buffered under its pair with its own
  timestamp as score. The member is the JSON text of the trade, so the same trade
  buffered twice is one member.
\<close>

definition buffer_trade :: "string \<Rightarrow> string \<times> rat \<times> rat \<times> int \<Rightarrow> world \<Rightarrow> world" where
  "buffer_trade exchange entry w =
     (case entry of (pair, price, volume, timestamp) \<Rightarrow>
        let trade = \<lparr>t_price = price, t_volume = volume, t_timestamp = timestamp,
                     t_exchange = exchange\<rparr>;
            bufferKey = BUFFER_KEY_PREFIX @ pair
        in w\<lparr>buffers := (buffers w)
               (bufferKey := zadd (buffers w bufferKey) (t_timestamp trade) trade)\<rparr>)"

definition processBatch :: "string \<Rightarrow> (string \<times> rat \<times> rat \<times> int) list \<Rightarrow> world \<Rightarrow> unit outcome" where
  "processBatch exchange entries w =
     (if entries \<noteq> [] \<and> \<not> redis_up w then Throw RedisError w
      else Return () (fold (buffer_trade exchange) entries w))"

section \<open>Price history repository\<close>

definition DEFAULT_LIMIT :: nat where "DEFAULT_LIMIT = 1000"
definition MAX_LIMIT :: nat where "MAX_LIMIT = 10000"

datatype order = Asc | Desc

record PriceHistoryQueryOptions =
  q_pair :: string
  q_from :: "int option"
  q_to :: "int option"
  q_limit :: "nat option"
  q_offset :: "nat option"
  q_orderBy :: "order option"

definition order_by :: "('a \<Rightarrow> int) \<Rightarrow> order \<Rightarrow> 'a list \<Rightarrow> 'a list" where
  "order_by ts ord rows =
     (case ord of Asc \<Rightarrow> sort_key ts rows | Desc \<Rightarrow> sort_key (\<lambda>r. - ts r) rows)"

definition findByPairInRange ::
  "PriceHistoryQueryOptions \<Rightarrow> world \<Rightarrow> CreatePriceHistoryInput list outcome" where
  "findByPairInRange options w =
     (let limit = min (case q_limit options of None \<Rightarrow> DEFAULT_LIMIT | Some l \<Rightarrow> l) MAX_LIMIT;
          q0 = filter (\<lambda>r. h_pair r = q_pair options) (price_history w);
          q1 = (case q_from options of None \<Rightarrow> q0
                | Some from \<Rightarrow> filter (\<lambda>r. from \<le> h_timestamp r) q0);
          q2 = (case q_to options of None \<Rightarrow> q1
                | Some to \<Rightarrow> filter (\<lambda>r. h_timestamp r \<le> to) q1);
          q3 = order_by h_timestamp (case q_orderBy options of None \<Rightarrow> Desc | Some ord \<Rightarrow> ord) q2;
          q4 = take limit (case q_offset options of None \<Rightarrow> q3 | Some off \<Rightarrow> drop off q3)
      in if \<not> db_up w then Throw DatabaseError w else Return q4 w)"

section \<open>Candle repository\<close>

datatype ChartInterval = FiveMin | OneHour | OneDay

fun getTableName :: "ChartInterval \<Rightarrow> string" where
  "getTableName FiveMin = ''price_history_5min''"
| "getTableName OneHour = ''price_history_1hour''"
| "getTableName OneDay = ''price_history_1day''"

text \<open>Insert, or on a row with the same pair and period start overwrite its values.\<close>

fun upsert_row :: "CreateOhlcvCandleInput \<Rightarrow> CreateOhlcvCandleInput list \<Rightarrow> CreateOhlcvCandleInput list" where
  "upsert_row c [] = [c]"
| "upsert_row c (r # rs) =
     (if k_pair r = k_pair c \<and> k_timestamp r = k_timestamp c then c # rs
      else r # upsert_row c rs)"

definition upsertCandle :: "ChartInterval \<Rightarrow> CreateOhlcvCandleInput \<Rightarrow> world \<Rightarrow> unit outcome" where
  "upsertCandle interval candle w =
     (let tableName = getTableName interval
      in if \<not> db_up w then Throw DatabaseError w
         else Return () (w\<lparr>candle_tables := (candle_tables w)
                            (tableName := upsert_row candle (candle_tables w tableName))\<rparr>))"

text \<open>
  A cursor is the base64 text of an ISO-8601 instant; it is represented by the instant
  it encodes, and an absent or empty cursor by \<open>None\<close>.
\<close>

record OhlcvQueryOptions =
  o_pair :: string
  o_from :: "int option"
  o_to :: "int option"
  o_limit :: "nat option"
  o_cursor :: "int option"
  o_orderBy :: "order option"

record CursorPaginatedCandles =
  candles :: "CreateOhlcvCandleInput list"
  nextCursor :: "int option"
  previousCursor :: "int option"
  hasMore :: bool

text \<open>The rows the query of \<open>getCandlesWithCursor\<close> selects, in its order, before its limit.\<close>

definition cursor_query :: "ChartInterval \<Rightarrow> OhlcvQueryOptions \<Rightarrow> world \<Rightarrow> CreateOhlcvCandleInput list" where
  "cursor_query interval options w =
     (let tableName = getTableName interval;
          q0 = filter (\<lambda>r. k_pair r = o_pair options) (candle_tables w tableName);
          q1 = (case o_cursor options of None \<Rightarrow> q0
                | Some cursorTimestamp \<Rightarrow> filter (\<lambda>r. k_timestamp r < cursorTimestamp) q0);
          q2 = (case o_from options of None \<Rightarrow> q1
                | Some from \<Rightarrow> filter (\<lambda>r. from \<le> k_timestamp r) q1);
          q3 = (case o_to options of None \<Rightarrow> q2
                | Some to \<Rightarrow> filter (\<lambda>r. k_timestamp r \<le> to) q2)
      in order_by k_timestamp (case o_orderBy options of None \<Rightarrow> Desc | Some ord \<Rightarrow> ord) q3)"

definition getCandlesWithCursor ::
  "ChartInterval \<Rightarrow> OhlcvQueryOptions \<Rightarrow> world \<Rightarrow> CursorPaginatedCandles outcome" where
  "getCandlesWithCursor interval options w =
     (let limit = (case o_limit options of None \<Rightarrow> 100 | Some l \<Rightarrow> l);
          fetched = take (limit + 1) (cursor_query interval options w);
          more = (length fetched > limit);
          resultCandles = (if more then take limit fetched else fetched);
          next = (if more \<and> length resultCandles > 0
                  then Some (k_timestamp (last resultCandles)) else None);
          previous = (if o_cursor options \<noteq> None \<and> length resultCandles > 0
                      then Some (k_timestamp (hd resultCandles)) else None)
      in if \<not> db_up w then Throw DatabaseError w
         else Return \<lparr>candles = resultCandles, nextCursor = next, previousCursor = previous,
                       hasMore = more\<rparr> w)"

section \<open>OHLCV aggregator\<close>

text \<open>
  The loop over the loaded rows: \<open>parseFloat\<close> of a row's price and of its volume, a null
  volume read as \<open>'0'\<close>.
\<close>

definition ohlcv_step ::
  "CreatePriceHistoryInput \<Rightarrow> jsnum \<times> jsnum \<times> jsnum \<times> jsnum \<Rightarrow> jsnum \<times> jsnum \<times> jsnum \<times> jsnum" where
  "ohlcv_step p acc =
     (case acc of (high, low, totalVolume, priceVolumeSum) \<Rightarrow>
        let price = h_price p;
            volume = (case h_volume p of None \<Rightarrow> Num 0 | Some v \<Rightarrow> v)
        in (if js_gt price high then price else high,
            if js_lt price low then price else low,
            js_add totalVolume volume,
            js_add priceVolumeSum (js_mul price volume)))"

definition build_candle :: "string \<Rightarrow> int \<Rightarrow> CreatePriceHistoryInput list \<Rightarrow> CreateOhlcvCandleInput" where
  "build_candle pair periodStart prices =
     (let open = h_price (hd prices);
          close = h_price (last prices)
      in case fold ohlcv_step prices (open, open, Num 0, Num 0) of
           (high, low, totalVolume, priceVolumeSum) \<Rightarrow>
             let vwap = (if js_gt totalVolume (Num 0) then js_div priceVolumeSum totalVolume
                         else js_div (js_add open close) (Num 2))
             in \<lparr>k_pair = pair, k_timestamp = periodStart, k_open = toFixed8 open,
                 k_high = toFixed8 high, k_low = toFixed8 low, k_close = toFixed8 close,
                 k_volume = toFixed8 totalVolume, k_vwap = Some (toFixed8 vwap),
                 k_trade_count = length prices\<rparr>)"

text \<open>
  One pass of the loop body of \<open>aggregateInterval\<close>; \<open>build_candle\<close> is only reached with
  at least one row, so its \<open>hd\<close> and \<open>last\<close> are \<open>prices[0]\<close> and \<open>prices[length - 1]\<close>.
\<close>

definition aggregate_candle ::
  "ChartInterval \<Rightarrow> int \<Rightarrow> int \<Rightarrow> string \<Rightarrow> nat \<times> world \<Rightarrow> nat \<times> world" where
  "aggregate_candle interval periodStart periodEnd pair st =
     (case st of (totalProcessed, w) \<Rightarrow>
        (case findByPairInRange \<lparr>q_pair = pair, q_from = Some periodStart, q_to = Some periodEnd,
                                 q_limit = None, q_offset = None, q_orderBy = Some Asc\<rparr> w of
           Throw e w1 \<Rightarrow> (totalProcessed, log_error e pair w1)
         | Return prices w1 \<Rightarrow>
             if length prices = 0 then (totalProcessed, w1)
             else
               (case upsertCandle interval (build_candle pair periodStart prices) w1 of
                  Throw e w2 \<Rightarrow> (totalProcessed, log_error e pair w2)
                | Return _ w2 \<Rightarrow> (totalProcessed + 1, w2))))"

definition aggregateInterval :: "ChartInterval \<Rightarrow> int \<Rightarrow> int \<Rightarrow> world \<Rightarrow> nat \<times> world" where
  "aggregateInterval interval periodStart periodEnd w =
     fold (aggregate_candle interval periodStart periodEnd) (USD_PAIRS @ RUB_PAIRS) (0, w)"

section \<open>Rate limiter\<close>

definition RATE_LIMIT_PREFIX :: string where "RATE_LIMIT_PREFIX = ''ratelimit:''"

record RateLimitConfig =
  enabled :: bool
  windowMs :: int
  maxRequests :: int

record RateLimitResult =
  allowed :: bool
  remaining :: int
  resetTime :: int
  retryAfter :: "int option"

text \<open>
  The limiter's keys in Redis. A member \<open>`${now}:${random}`\<close> is represented by the pair
  of the instant and the random text.
\<close>

record limiter_store =
  limiter_up :: bool
  windows :: "string \<Rightarrow> (int \<times> string) zset"
  expiry :: "string \<Rightarrow> int option"

definition limit_key :: "string \<Rightarrow> string option \<Rightarrow> string" where
  "limit_key clientId endpoint =
     (case endpoint of
        None \<Rightarrow> RATE_LIMIT_PREFIX @ clientId
      | Some e \<Rightarrow> if e = [] then RATE_LIMIT_PREFIX @ clientId
                  else RATE_LIMIT_PREFIX @ clientId @ '':'' @ e)"

text \<open>
  \<open>now\<close> is the clock at the call and \<open>rnd\<close> the random text it draws. The four queued
  commands run together; when Redis is down \<open>exec\<close> throws and the request is let
  through.
\<close>

definition checkLimit ::
  "RateLimitConfig \<Rightarrow> int \<Rightarrow> string \<Rightarrow> string \<Rightarrow> string option \<Rightarrow> limiter_store
     \<Rightarrow> RateLimitResult \<times> limiter_store" where
  "checkLimit config now rnd clientId endpoint s =
     (if \<not> enabled config
      then (\<lparr>allowed = True, remaining = maxRequests config,
             resetTime = now + windowMs config, retryAfter = None\<rparr>, s)
      else
        let windowStart = now - windowMs config;
            key = limit_key clientId endpoint
        in if \<not> limiter_up s
           then (\<lparr>allowed = True, remaining = maxRequests config,
                  resetTime = now + windowMs config, retryAfter = None\<rparr>, s)
           else
             let z1 = zremrangebyscore (windows s key) 0 windowStart;
                 currentCount = int (zcard z1);
                 z2 = zadd z1 now (now, rnd);
                 s' = s\<lparr>windows := (windows s)(key := z2),
                        expiry := (expiry s)(key := Some (- ((- windowMs config) div 1000) + 1))\<rparr>;
                 remaining = max 0 (maxRequests config - currentCount - 1);
                 resetTime = now + windowMs config
             in if currentCount \<ge> maxRequests config
                then (\<lparr>allowed = False, remaining = 0, resetTime = resetTime,
                       retryAfter = Some (windowMs config)\<rparr>, s')
                else (\<lparr>allowed = True, remaining = remaining, resetTime = resetTime,
                       retryAfter = None\<rparr>, s'))"

text \<open>A run of checks of one client, each with its clock and its random text.\<close>

fun checkLimits ::
  "RateLimitConfig \<Rightarrow> (int \<times> string) list \<Rightarrow> string \<Rightarrow> string option \<Rightarrow> limiter_store
     \<Rightarrow> limiter_store" where
  "checkLimits config [] clientId endpoint s = s"
| "checkLimits config (r # rs) clientId endpoint s =
     checkLimits config rs clientId endpoint
       (snd (checkLimit config (fst r) (snd r) clientId endpoint s))"

section \<open>Fiat rate service\<close>

definition FALLBACK_RATE :: rat where "FALLBACK_RATE = 90"

fun js_le :: "jsnum \<Rightarrow> jsnum \<Rightarrow> bool" where
  "js_le (Num a) (Num b) = (a \<le> b)"
| "js_le NaN _ = False"
| "js_le _ NaN = False"
| "js_le NegInf _ = True"
| "js_le _ PosInf = True"
| "js_le PosInf _ = False"
| "js_le (Num a) NegInf = False"

record CbrRateService =
  lastFetchTime :: int
  cachedRate :: jsnum
  lastError :: "string option"
  consecutiveFailures :: nat
  cacheTtl :: nat
  retryAttempts :: nat
  retryDelay :: nat

text \<open>What one HTTP exchange with the bank yields, up to \<open>parseFloat\<close> of the USD value.\<close>

datatype cbr_response = FetchFailed | HttpStatus nat | InvalidXml | UsdMissing | UsdValue jsnum

text \<open>
  What the service sees around it: whether Redis answers, \<open>parseFloat\<close> of the text
  under \<open>rate:usd-rub\<close> (\<open>None\<close> when the key is absent or empty), and the reply to each
  HTTP exchange in turn.
\<close>

record cbr_env =
  rate_redis_up :: bool
  rate_key :: "jsnum option"
  http :: "nat \<Rightarrow> cbr_response"
  http_calls :: nat

text \<open>A single attempt; the first component is the message of the error thrown, if any.\<close>

definition fetchRate :: "int \<Rightarrow> CbrRateService \<times> cbr_env \<Rightarrow> string option \<times> CbrRateService \<times> cbr_env" where
  "fetchRate now st =
     (case st of (svc, env) \<Rightarrow>
        let env1 = env\<lparr>http_calls := http_calls env + 1\<rparr>
        in case http env (http_calls env) of
             FetchFailed \<Rightarrow> (Some ''fetch failed'', svc, env1)
           | HttpStatus code \<Rightarrow> (Some ''HTTP status'', svc, env1)
           | InvalidXml \<Rightarrow> (Some ''Invalid XML structure: missing ValCurs.Valute'', svc, env1)
           | UsdMissing \<Rightarrow> (Some ''USD not found in CBR response'', svc, env1)
           | UsdValue rate \<Rightarrow>
               if isNaN rate \<or> js_le rate (Num 0) then (Some ''Invalid rate value'', svc, env1)
               else if \<not> rate_redis_up env1 then (Some ''redis'', svc, env1)
               else (None, svc\<lparr>cachedRate := rate, lastFetchTime := now\<rparr>,
                     env1\<lparr>rate_key := Some rate\<rparr>))"

text \<open>The retry loop, with the number of attempts still to make.\<close>

fun fetch_attempts :: "nat \<Rightarrow> int \<Rightarrow> CbrRateService \<times> cbr_env \<Rightarrow> bool \<times> CbrRateService \<times> cbr_env" where
  "fetch_attempts 0 now st = (False, st)"
| "fetch_attempts (Suc n) now st =
     (case fetchRate now st of
        (None, svc, env) \<Rightarrow> (True, svc\<lparr>consecutiveFailures := 0, lastError := None\<rparr>, env)
      | (Some errorMessage, svc, env) \<Rightarrow>
          fetch_attempts n now
            (svc\<lparr>lastError := Some errorMessage,
                 consecutiveFailures := consecutiveFailures svc + 1\<rparr>, env))"

definition fetchRateWithRetry :: "int \<Rightarrow> CbrRateService \<times> cbr_env \<Rightarrow> bool \<times> CbrRateService \<times> cbr_env" where
  "fetchRateWithRetry now st = fetch_attempts (retryAttempts (fst st)) now st"

definition getRate :: "int \<Rightarrow> CbrRateService \<times> cbr_env \<Rightarrow> jsnum \<times> CbrRateService \<times> cbr_env" where
  "getRate now st =
     (case st of (svc, env) \<Rightarrow>
        let cached = (if rate_redis_up env then rate_key env else None)
        in case (case cached of
                   Some rate \<Rightarrow> if \<not> isNaN rate \<and> js_gt rate (Num 0) then Some rate else None
                 | None \<Rightarrow> None) of
             Some rate \<Rightarrow> (rate, svc, env)
           | None \<Rightarrow>
               if js_gt (cachedRate svc) (Num 0) then (cachedRate svc, svc, env)
               else
                 (case fetchRateWithRetry now (svc, env) of
                    (success, svc', env') \<Rightarrow>
                      if success \<and> js_gt (cachedRate svc') (Num 0)
                      then (cachedRate svc', svc', env')
                      else (Num FALLBACK_RATE, svc', env')))"

section \<open>Reading outcomes, and the states used as examples\<close>

fun world_of :: "'a outcome \<Rightarrow> world" where
  "world_of (Return x w) = w"
| "world_of (Throw e w) = w"

fun value_of :: "'a outcome \<Rightarrow> 'a option" where
  "value_of (Return x w) = Some x"
| "value_of (Throw e w) = None"

text \<open>The trades \<open>calculateVwap\<close> reads at a tick: those of the pair scored within the window.\<close>

definition window_trades :: "int \<Rightarrow> string \<Rightarrow> world \<Rightarrow> TradeEntry list" where
  "window_trades now pair w =
     zrangebyscore (buffers w (BUFFER_KEY_PREFIX @ pair)) (now - 30000) now"

definition empty_world :: world where
  "empty_world = \<lparr>redis_up = True, buffers = (\<lambda>k. []), cache = (\<lambda>k. None), published = [],
                   db_up = True, price_history = [], candle_tables = (\<lambda>k. []), logged = []\<rparr>"

definition trade_at :: "int \<Rightarrow> rat \<Rightarrow> rat \<Rightarrow> string \<Rightarrow> int \<times> TradeEntry" where
  "trade_at t p v x = (t, \<lparr>t_price = p, t_volume = v, t_timestamp = t, t_exchange = x\<rparr>)"

definition btc_buffer :: "TradeEntry zset \<Rightarrow> world" where
  "btc_buffer z = empty_world\<lparr>buffers := (\<lambda>k. if k = ''buffer:trades:btc-usd'' then z else [])\<rparr>"

text \<open>The process after \<open>init\<close>.\<close>

definition new_process :: StreamAggregatorProcess where
  "new_process = \<lparr>isRunning = True, consecutiveErrors = 0, lastErrorTime = 0,
                   lastSuccessfulAggregation = 0, aggregationCount = 0\<rparr>"

definition zero_volume_world :: world where
  "zero_volume_world = btc_buffer [trade_at 1000000 100 0 ''binance'']"

definition stale_world :: world where
  "stale_world = btc_buffer [trade_at 960000 100 1 ''binance'']"

text \<open>
  A world whose database is down, and a round in it: a batch with one trade of each
  base pair at the instant \<open>t\<close> is buffered, then the tick at \<open>t\<close> runs.
\<close>

definition down_world :: world where
  "down_world = empty_world\<lparr>db_up := False\<rparr>"

definition batch_and_tick ::
  "int \<Rightarrow> world \<times> StreamAggregatorProcess \<Rightarrow> world \<times> StreamAggregatorProcess" where
  "batch_and_tick t st =
     aggregate t (Num 90)
       (world_of (processBatch ''binance''
          [(''btc-usd'', 45000, 1, t), (''xmr-usd'', 150, 2, t), (''eth-usd'', 3000, 1, t)]
          (fst st)), snd st)"

text \<open>The USD row \<open>savePrices\<close> writes for a result.\<close>

definition usd_row :: "VwapResult \<Rightarrow> CreatePriceHistoryInput" where
  "usd_row vwap = \<lparr>h_pair = v_pair vwap, h_price = toFixed8 (v_price vwap),
                    h_timestamp = v_timestamp vwap, h_method = ''vwap'',
                    h_sources = v_sources vwap,
                    h_volume = Some (toFixed8 (Num (v_volume vwap)))\<rparr>"

definition vwap_100 :: VwapResult where
  "vwap_100 = \<lparr>v_pair = ''btc-usd'', v_price = Num 100, v_volume = 1, v_sources = [''binance''],
                v_timestamp = 1000010\<rparr>"

text \<open>The options \<open>aggregateInterval\<close> passes to \<open>findByPairInRange\<close>.\<close>

definition period_query :: "string \<Rightarrow> int \<Rightarrow> int \<Rightarrow> PriceHistoryQueryOptions" where
  "period_query pair periodStart periodEnd =
     \<lparr>q_pair = pair, q_from = Some periodStart, q_to = Some periodEnd,
      q_limit = None, q_offset = None, q_orderBy = Some Asc\<rparr>"

definition price_row :: "string \<Rightarrow> int \<Rightarrow> rat \<Rightarrow> rat \<Rightarrow> CreatePriceHistoryInput" where
  "price_row pair t p v = \<lparr>h_pair = pair, h_price = Num p, h_timestamp = t, h_method = ''vwap'',
                           h_sources = [''binance''], h_volume = Some (Num v)\<rparr>"

definition boundary_world :: world where
  "boundary_world = empty_world\<lparr>price_history :=
     [price_row ''btc-usd'' 1200000 100 1, price_row ''btc-usd'' 1500000 200 1]\<rparr>"

definition candle_of :: "string \<Rightarrow> int \<Rightarrow> rat \<Rightarrow> rat \<Rightarrow> rat \<Rightarrow> rat \<Rightarrow> rat \<Rightarrow> rat \<Rightarrow> nat \<Rightarrow> CreateOhlcvCandleInput" where
  "candle_of pair t opn hi lo cls vol vw n =
     \<lparr>k_pair = pair, k_timestamp = t, k_open = Num opn, k_high = Num hi, k_low = Num lo,
      k_close = Num cls, k_volume = Num vol, k_vwap = Some (Num vw), k_trade_count = n\<rparr>"

definition day_world :: world where
  "day_world = empty_world\<lparr>price_history :=
      map (\<lambda>i. price_row ''btc-usd'' (int i) 100 1) [0..<1001]\<rparr>"

text \<open>The page size of a query: \<open>options.limit ?? 100\<close>.\<close>

definition page_limit :: "OhlcvQueryOptions \<Rightarrow> nat" where
  "page_limit options = (case o_limit options of None \<Rightarrow> 100 | Some l \<Rightarrow> l)"

definition hour_candle :: "int \<Rightarrow> CreateOhlcvCandleInput" where
  "hour_candle t = candle_of ''btc-usd'' t 100 100 100 100 1 100 1"

definition page_world :: world where
  "page_world = empty_world\<lparr>candle_tables :=
     (\<lambda>k. if k = ''price_history_1hour'' then [hour_candle 1, hour_candle 2, hour_candle 3] else [])\<rparr>"

definition page_options :: "int option \<Rightarrow> OhlcvQueryOptions" where
  "page_options c = \<lparr>o_pair = ''btc-usd'', o_from = None, o_to = None, o_limit = Some 2,
                      o_cursor = c, o_orderBy = None\<rparr>"

text \<open>The result of a denied check.\<close>

definition denied :: "RateLimitConfig \<Rightarrow> int \<Rightarrow> RateLimitResult" where
  "denied config now = \<lparr>allowed = False, remaining = 0, resetTime = now + windowMs config,
                         retryAfter = Some (windowMs config)\<rparr>"

definition one_per_minute :: RateLimitConfig where
  "one_per_minute = \<lparr>enabled = True, windowMs = 60000, maxRequests = 1\<rparr>"

definition empty_store :: limiter_store where
  "empty_store = \<lparr>limiter_up = True, windows = (\<lambda>k. []), expiry = (\<lambda>k. None)\<rparr>"

definition one_request_store :: limiter_store where
  "one_request_store = empty_store\<lparr>windows :=
      (\<lambda>k. if k = ''ratelimit:client'' then [(1000, (1000, ''a''))] else [])\<rparr>"

text \<open>The rate \<open>getRate\<close> takes from Redis: a cached value that parses to a positive number.\<close>

definition redis_rate :: "cbr_env \<Rightarrow> jsnum option" where
  "redis_rate env =
     (if rate_redis_up env
      then (case rate_key env of
              Some rate \<Rightarrow> if \<not> isNaN rate \<and> js_gt rate (Num 0) then Some rate else None
            | None \<Rightarrow> None)
      else None)"

text \<open>The service as constructed with the default configuration, and a world without Redis and network.\<close>

definition new_service :: CbrRateService where
  "new_service = \<lparr>lastFetchTime = 0, cachedRate = Num 0, lastError = None,
                   consecutiveFailures = 0, cacheTtl = 3600, retryAttempts = 3,
                   retryDelay = 5000\<rparr>"

definition offline_env :: cbr_env where
  "offline_env = \<lparr>rate_redis_up = False, rate_key = None, http = (\<lambda>n. FetchFailed),
                   http_calls = 0\<rparr>"

text \<open>Every buffered trade is scored by its own timestamp, as \<open>processBatch\<close> writes it.\<close>

definition scored_by_time :: "world \<Rightarrow> bool" where
  "scored_by_time w = (\<forall>k. \<forall>e\<in>set (buffers w k). fst e = t_timestamp (snd e))"

section \<open>Properties of the stream aggregator\<close>

lemmas ex_defs = btc_buffer_def empty_world_def trade_at_def new_process_def
  BUFFER_KEY_PREFIX_def WINDOW_SIZE_def USD_PAIRS_def

lemma fold_vwap_step:
  "snd (snd (fold vwap_step ts (a, b, s))) = fold (\<lambda>t s. set_add s (t_exchange t)) ts s"
  by (induction ts arbitrary: a b s) (simp_all add: vwap_step_def)

lemma set_fold_set_add:
  "set (fold (\<lambda>t s. set_add s (f t)) ts s) = set s \<union> f ` set ts"
  by (induction ts arbitrary: s) (auto simp: set_add_def)

lemma distinct_fold_set_add:
  "distinct s \<Longrightarrow> distinct (fold (\<lambda>t s. set_add s (f t)) ts s)"
  by (induction ts arbitrary: s) (auto simp: set_add_def)

lemma mset_zrangebyscore:
  "mset (zrangebyscore z lo hi) = image_mset snd (filter_mset (in_score_range lo hi) (mset z))"
  by (simp add: zrangebyscore_def)

lemma zadd_scored:
  "\<forall>e\<in>set z. fst e = t_timestamp (snd e) \<Longrightarrow>
   \<forall>e\<in>set (zadd z (t_timestamp trade) trade). fst e = t_timestamp (snd e)"
  by (auto simp: zadd_def)

lemma buffer_trade_scored:
  assumes "scored_by_time w"
  shows "scored_by_time (buffer_trade exchange entry w)"
proof -
  obtain pair price volume timestamp where e: "entry = (pair, price, volume, timestamp)"
    by (cases entry) auto
  let ?t = "\<lparr>t_price = price, t_volume = volume, t_timestamp = timestamp, t_exchange = exchange\<rparr>"
  have "\<forall>e\<in>set (zadd (buffers w (BUFFER_KEY_PREFIX @ pair)) (t_timestamp ?t) ?t).
          fst e = t_timestamp (snd e)"
    using assms by (intro zadd_scored) (simp add: scored_by_time_def)
  with assms show ?thesis
    unfolding scored_by_time_def buffer_trade_def e Let_def by simp
qed

lemma processBatch_scored:
  assumes "scored_by_time w"
  shows "scored_by_time (world_of (processBatch exchange entries w))"
proof -
  have "scored_by_time (fold (buffer_trade exchange) entries w)"
    using assms by (induction entries arbitrary: w) (simp_all add: buffer_trade_scored)
  with assms show ?thesis by (simp add: processBatch_def)
qed

lemma window_trades_event_time:
  assumes "scored_by_time w"
  shows "set (window_trades now pair w) =
     {t \<in> snd ` set (buffers w (BUFFER_KEY_PREFIX @ pair)).
        now - 30000 \<le> t_timestamp t \<and> t_timestamp t \<le> now}"
  using assms
  by (force simp: window_trades_def zrangebyscore_def in_score_range_def scored_by_time_def)

lemma calculateVwap_nonempty:
  assumes "redis_up w" and "window_trades now pair w \<noteq> []"
  shows "\<exists>r. calculateVwap now pair w =
            Return (Some r)
              (w\<lparr>buffers := (buffers w)(BUFFER_KEY_PREFIX @ pair :=
                   zremrangebyscore (buffers w (BUFFER_KEY_PREFIX @ pair)) 0 (now - 30000))\<rparr>)
      \<and> v_sources r = fold (\<lambda>t s. set_add s (t_exchange t)) (window_trades now pair w) []
      \<and> v_pair r = pair \<and> v_timestamp r = now"
proof -
  obtain a b c where f: "fold vwap_step (window_trades now pair w) (0, 0, []) = (a, b, c)"
    by (cases "fold vwap_step (window_trades now pair w) (0, 0, [])") auto
  have "c = fold (\<lambda>t s. set_add s (t_exchange t)) (window_trades now pair w) []"
    using fold_vwap_step[of "window_trades now pair w" 0 0 "[]"] by (simp add: f)
  with assms f show ?thesis
    by (simp add: calculateVwap_def window_trades_def[symmetric] WINDOW_SIZE_def Let_def)
qed

text \<open>
  What a tick with a non-empty window returns for the fields that involve no arithmetic:
  the sources are the venues of the trades in the window, each once.
\<close>

lemma calculateVwap_sources:
  assumes "redis_up w" and "window_trades now pair w \<noteq> []"
  shows "\<exists>r w'. calculateVwap now pair w = Return (Some r) w'
      \<and> set (v_sources r) = t_exchange ` set (window_trades now pair w)
      \<and> distinct (v_sources r)
      \<and> v_pair r = pair \<and> v_timestamp r = now"
  using calculateVwap_nonempty[OF assms]
  by (auto simp: set_fold_set_add distinct_fold_set_add)

text \<open>
  C2. A window whose trades have total volume zero: a single trade of volume 0 in the
  buffer of \<open>btc-usd\<close>. The division yields NaN, \<open>calculateVwap\<close> returns a result, and the
  tick persists a USD row and a RUB row whose price is NaN.
\<close>

theorem zero_volume_is_emitted:
  "value_of (calculateVwap 1000010 ''btc-usd'' zero_volume_world) =
      Some (Some \<lparr>v_pair = ''btc-usd'', v_price = NaN, v_volume = 0, v_sources = [''binance''],
                  v_timestamp = 1000010\<rparr>)
   \<and> price_history (fst (aggregate 1000010 (Num 90) (zero_volume_world, new_process))) =
      [\<lparr>h_pair = ''btc-usd'', h_price = NaN, h_timestamp = 1000010, h_method = ''vwap'',
        h_sources = [''binance''], h_volume = Some (Num 0)\<rparr>,
       \<lparr>h_pair = ''btc-rub'', h_price = NaN, h_timestamp = 1000010, h_method = ''vwap'',
        h_sources = [''binance'', ''cbr''], h_volume = Some (Num 0)\<rparr>]"
proof -
  have a: "value_of (calculateVwap 1000010 ''btc-usd'' zero_volume_world) =
      Some (Some \<lparr>v_pair = ''btc-usd'', v_price = NaN, v_volume = 0, v_sources = [''binance''],
                  v_timestamp = 1000010\<rparr>)"
    by (simp add: calculateVwap_def zero_volume_world_def ex_defs zrangebyscore_def
        in_score_range_def vwap_step_def set_add_def Let_def)
  have b: "price_history (fst (aggregate 1000010 (Num 90) (zero_volume_world, new_process))) =
      [\<lparr>h_pair = ''btc-usd'', h_price = NaN, h_timestamp = 1000010, h_method = ''vwap'',
        h_sources = [''binance''], h_volume = Some (Num 0)\<rparr>,
       \<lparr>h_pair = ''btc-rub'', h_price = NaN, h_timestamp = 1000010, h_method = ''vwap'',
        h_sources = [''binance'', ''cbr''], h_volume = Some (Num 0)\<rparr>]"
    by (simp add: aggregate_def aggregate_pair_def calculateVwap_def savePrices_def create_def
        cachePrice_def zero_volume_world_def ex_defs zrangebyscore_def zremrangebyscore_def
        in_score_range_def vwap_step_def set_add_def Let_def js_gt_def round8_def)
  from a b show ?thesis by (rule conjI)
qed

text \<open>
  C3. A buffer whose only trade is older than the window: the tick at 1000010 returns
  from \<open>calculateVwap\<close> before the cleanup, and the trade scored 960000, which is less
  than 1000010 - 30000, is still buffered after the tick.
\<close>

theorem stale_buffer_not_pruned:
  "buffers (fst (aggregate 1000010 (Num 90) (stale_world, new_process))) ''buffer:trades:btc-usd''
     = [trade_at 960000 100 1 ''binance'']
   \<and> fst (trade_at 960000 100 1 ''binance'') < 1000010 - 30000"
  by (simp add: aggregate_def aggregate_pair_def calculateVwap_def
      stale_world_def ex_defs zrangebyscore_def zremrangebyscore_def
      in_score_range_def Let_def)

text \<open>What the tick does prune: when the window is not empty, every score from 0 up to the window start.\<close>

lemma calculateVwap_prunes:
  assumes "redis_up w" and "window_trades now pair w \<noteq> []"
    and "e \<in> set (buffers (world_of (calculateVwap now pair w)) (BUFFER_KEY_PREFIX @ pair))"
  shows "fst e < 0 \<or> now - 30000 < fst e"
  using assms(3) calculateVwap_nonempty[OF assms(1,2)]
  by (auto simp: zremrangebyscore_def in_score_range_def)

section \<open>Health of the stream aggregator\<close>

lemma checkHealth_unhealthy:
  "\<not> isRunning p \<or> 10 \<le> consecutiveErrors p \<Longrightarrow> checkHealth now p = Unhealthy"
  by (auto simp: checkHealth_def checks_def)

lemma checkHealth_degraded:
  "isRunning p \<Longrightarrow> consecutiveErrors p < 10 \<Longrightarrow> 30000 \<le> now - lastSuccessfulAggregation p
     \<Longrightarrow> checkHealth now p = Degraded"
  by (auto simp: checkHealth_def checks_def AGGREGATION_INTERVAL_def)

text \<open>Ticks while the database is down and trades keep arriving.\<close>

lemma calculateVwap_after_zadd:
  assumes "redis_up w" "k = BUFFER_KEY_PREFIX @ pair"
    and "buffers w k = zadd z t tr"
  shows "\<exists>v w'. calculateVwap t pair w = Return (Some v) w' \<and> db_up w' = db_up w
      \<and> redis_up w' \<and> price_history w' = price_history w \<and> published w' = published w
      \<and> logged w' = logged w
      \<and> (\<forall>k'. k' \<noteq> k \<longrightarrow> buffers w' k' = buffers w k')"
proof -
  have "window_trades t pair w \<noteq> []"
    using assms(2,3)
    by (simp add: window_trades_def zrangebyscore_def zadd_def in_score_range_def)
  from calculateVwap_nonempty[OF assms(1) this] assms(1,2) show ?thesis by auto
qed

lemma aggregate_pair_db_down:
  assumes "\<not> db_up w" "redis_up w" "buffers w (BUFFER_KEY_PREFIX @ pair) = zadd z t tr"
  shows "\<exists>w'. aggregate_pair t rate pair (w, p) = (w', p) \<and> \<not> db_up w' \<and> redis_up w'
     \<and> price_history w' = price_history w \<and> published w' = published w
     \<and> logged w' = logged w @ [(DatabaseError, pair)]
     \<and> (\<forall>k'. k' \<noteq> BUFFER_KEY_PREFIX @ pair \<longrightarrow> buffers w' k' = buffers w k')"
proof -
  from calculateVwap_after_zadd[OF assms(2) refl assms(3)] obtain v w1 where
    c: "calculateVwap t pair w = Return (Some v) w1" "db_up w1 = db_up w" "redis_up w1"
       "price_history w1 = price_history w" "published w1 = published w" "logged w1 = logged w"
       "\<forall>k'. k' \<noteq> BUFFER_KEY_PREFIX @ pair \<longrightarrow> buffers w1 k' = buffers w k'"
    by blast
  have "savePrices rate v w1 = Throw DatabaseError w1"
    using c(2) assms(1) by (simp add: savePrices_def create_def)
  with c assms(1) show ?thesis
    by (simp add: aggregate_pair_def log_error_def)
qed

lemma batch_and_tick_db_down:
  assumes "\<not> db_up w" "redis_up w"
  shows "\<exists>w'. batch_and_tick t (w, p) = (w', p\<lparr>lastSuccessfulAggregation := t\<rparr>)
     \<and> \<not> db_up w' \<and> redis_up w'
     \<and> price_history w' = price_history w \<and> published w' = published w
     \<and> logged w' = logged w @ [(DatabaseError, ''btc-usd''), (DatabaseError, ''xmr-usd''),
                                 (DatabaseError, ''eth-usd'')]"
proof -
  define w0 where "w0 = world_of (processBatch ''binance''
          [(''btc-usd'', 45000, 1, t), (''xmr-usd'', 150, 2, t), (''eth-usd'', 3000, 1, t)] w)"
  have w0: "\<not> db_up w0" "redis_up w0" "price_history w0 = price_history w"
    "published w0 = published w" "logged w0 = logged w"
    "\<exists>z tr. buffers w0 (BUFFER_KEY_PREFIX @ ''btc-usd'') = zadd z t tr"
    "\<exists>z tr. buffers w0 (BUFFER_KEY_PREFIX @ ''xmr-usd'') = zadd z t tr"
    "\<exists>z tr. buffers w0 (BUFFER_KEY_PREFIX @ ''eth-usd'') = zadd z t tr"
    using assms unfolding w0_def
    by (auto simp: processBatch_def buffer_trade_def Let_def BUFFER_KEY_PREFIX_def)
  from w0(6) obtain z1 tr1 where b1: "buffers w0 (BUFFER_KEY_PREFIX @ ''btc-usd'') = zadd z1 t tr1"
    by blast
  from aggregate_pair_db_down[OF w0(1,2) b1, of "Num 90" p] obtain w1 where
    w1: "aggregate_pair t (Num 90) ''btc-usd'' (w0, p) = (w1, p)" "\<not> db_up w1" "redis_up w1"
      "price_history w1 = price_history w0" "published w1 = published w0"
      "logged w1 = logged w0 @ [(DatabaseError, ''btc-usd'')]"
      "\<forall>k'. k' \<noteq> BUFFER_KEY_PREFIX @ ''btc-usd'' \<longrightarrow> buffers w1 k' = buffers w0 k'"
    by blast
  from w0(7) w1(7) obtain z2 tr2 where b2: "buffers w1 (BUFFER_KEY_PREFIX @ ''xmr-usd'') = zadd z2 t tr2"
    by (auto simp: BUFFER_KEY_PREFIX_def)
  from aggregate_pair_db_down[OF w1(2,3) b2, of "Num 90" p] obtain w2 where
    w2: "aggregate_pair t (Num 90) ''xmr-usd'' (w1, p) = (w2, p)" "\<not> db_up w2" "redis_up w2"
      "price_history w2 = price_history w1" "published w2 = published w1"
      "logged w2 = logged w1 @ [(DatabaseError, ''xmr-usd'')]"
      "\<forall>k'. k' \<noteq> BUFFER_KEY_PREFIX @ ''xmr-usd'' \<longrightarrow> buffers w2 k' = buffers w1 k'"
    by blast
  from w0(8) w1(7) w2(7) obtain z3 tr3 where b3: "buffers w2 (BUFFER_KEY_PREFIX @ ''eth-usd'') = zadd z3 t tr3"
    by (auto simp: BUFFER_KEY_PREFIX_def)
  from aggregate_pair_db_down[OF w2(2,3) b3, of "Num 90" p] obtain w3 where
    w3: "aggregate_pair t (Num 90) ''eth-usd'' (w2, p) = (w3, p)" "\<not> db_up w3" "redis_up w3"
      "price_history w3 = price_history w2" "published w3 = published w2"
      "logged w3 = logged w2 @ [(DatabaseError, ''eth-usd'')]"
    by blast
  have "batch_and_tick t (w, p) = (w3, p\<lparr>lastSuccessfulAggregation := t\<rparr>)"
    by (simp add: batch_and_tick_def w0_def[symmetric] aggregate_def USD_PAIRS_def w1(1) w2(1) w3(1))
  with w0 w1 w2 w3 show ?thesis by simp
qed


lemma ticks_db_down:
  assumes "\<not> db_up w" "redis_up w"
  shows "\<exists>w'. fold batch_and_tick ts (w, p) =
            (w', if ts = [] then p else p\<lparr>lastSuccessfulAggregation := last ts\<rparr>)
     \<and> \<not> db_up w' \<and> redis_up w'
     \<and> price_history w' = price_history w \<and> published w' = published w
     \<and> map fst (logged w') = map fst (logged w) @ replicate (3 * length ts) DatabaseError"
  using assms
proof (induction ts arbitrary: w p)
  case Nil
  then show ?case by simp
next
  case (Cons t ts)
  from batch_and_tick_db_down[OF Cons.prems, of t p] obtain w1 where
    w1: "batch_and_tick t (w, p) = (w1, p\<lparr>lastSuccessfulAggregation := t\<rparr>)"
      "\<not> db_up w1" "redis_up w1" "price_history w1 = price_history w"
      "published w1 = published w"
      "logged w1 = logged w @ [(DatabaseError, ''btc-usd''), (DatabaseError, ''xmr-usd''),
                                 (DatabaseError, ''eth-usd'')]"
    by blast
  from Cons.IH[OF w1(2,3), of "p\<lparr>lastSuccessfulAggregation := t\<rparr>"] obtain w' where
    w': "fold batch_and_tick ts (w1, p\<lparr>lastSuccessfulAggregation := t\<rparr>) =
            (w', if ts = [] then p\<lparr>lastSuccessfulAggregation := t\<rparr>
                 else p\<lparr>lastSuccessfulAggregation := t\<rparr>\<lparr>lastSuccessfulAggregation := last ts\<rparr>)"
      "\<not> db_up w'" "redis_up w'" "price_history w' = price_history w1"
      "published w' = published w1"
      "map fst (logged w') = map fst (logged w1) @ replicate (3 * length ts) DatabaseError"
    by blast
  have r: "\<And>k. replicate (3 + k) DatabaseError
               = DatabaseError # DatabaseError # DatabaseError # replicate k DatabaseError"
    by (simp add: numeral_3_eq_3)
  have "map fst (logged w') = map fst (logged w) @ replicate (3 * length (t # ts)) DatabaseError"
    unfolding w'(6) w1(6) by (simp add: r)
  with w1 w' show ?case by simp
qed

text \<open>
  C9. The database is down while Redis and the collectors work: before each of five ticks,
  10 s apart, a trade of every base pair arrives, and at each tick the aggregation of
  every pair throws in \<open>savePrices\<close> and is logged. Nothing is persisted, cached or
  broadcast and the count of aggregations stays 0. The end of each tick is still
  recorded as the last successful aggregation, so 45 s after the first of these ticks
  the health check reports healthy.
\<close>

theorem failed_ticks_count_as_successful:
  "logged (fst (batch_and_tick 1000000 (down_world, new_process))) =
     [(DatabaseError, ''btc-usd''), (DatabaseError, ''xmr-usd''), (DatabaseError, ''eth-usd'')]
   \<and> map fst (logged (fst (fold batch_and_tick [1000000, 1010000, 1020000, 1030000, 1040000]
                              (down_world, new_process)))) = replicate 15 DatabaseError
   \<and> price_history (fst (fold batch_and_tick [1000000, 1010000, 1020000, 1030000, 1040000]
                            (down_world, new_process))) = []
   \<and> published (fst (fold batch_and_tick [1000000, 1010000, 1020000, 1030000, 1040000]
                        (down_world, new_process))) = []
   \<and> snd (fold batch_and_tick [1000000, 1010000, 1020000, 1030000, 1040000]
             (down_world, new_process)) = new_process\<lparr>lastSuccessfulAggregation := 1040000\<rparr>
   \<and> checkHealth 1045000 (new_process\<lparr>lastSuccessfulAggregation := 1040000\<rparr>) = Healthy"
proof -
  have dw: "\<not> db_up down_world" "redis_up down_world" "logged down_world = []"
    "price_history down_world = []" "published down_world = []"
    by (simp_all add: down_world_def empty_world_def)
  from batch_and_tick_db_down[OF dw(1,2), of 1000000 new_process]
  have a: "logged (fst (batch_and_tick 1000000 (down_world, new_process))) =
     [(DatabaseError, ''btc-usd''), (DatabaseError, ''xmr-usd''), (DatabaseError, ''eth-usd'')]"
    by (auto simp: dw)
  from ticks_db_down[OF dw(1,2), of "[1000000, 1010000, 1020000, 1030000, 1040000]" new_process]
  obtain w' where
    w': "fold batch_and_tick [1000000, 1010000, 1020000, 1030000, 1040000] (down_world, new_process)
           = (w', new_process\<lparr>lastSuccessfulAggregation := 1040000\<rparr>)"
      "price_history w' = []" "published w' = []"
      "map fst (logged w') = replicate 15 DatabaseError"
    by (auto simp: dw)
  have f: "checkHealth 1045000 (new_process\<lparr>lastSuccessfulAggregation := 1040000\<rparr>) = Healthy"
    by (simp add: checkHealth_def checks_def new_process_def AGGREGATION_INTERVAL_def)
  from a w' f show ?thesis by simp
qed

section \<open>Rendering with eight decimals\<close>

lemma round8_fixed: "round8 (of_int k / 100000000) = of_int k / 100000000"
proof -
  have a: "\<bar>of_int k / 100000000 :: rat\<bar> * 100000000 = of_int \<bar>k\<bar>"
    by (simp add: abs_divide)
  have "\<lfloor>(of_int \<bar>k\<bar> :: rat) + 1 / 2\<rfloor> = \<bar>k\<bar>"
    by (rule floor_unique) simp_all
  hence "round8 (of_int k / 100000000) = sgn (of_int k / 100000000 :: rat) * of_int \<bar>k\<bar> / 100000000"
    unfolding round8_def a by simp
  also have "\<dots> = of_int k / 100000000"
    by (cases "k = 0"; cases "k < 0") (simp_all add: sgn_if)
  finally show ?thesis .
qed

lemma round8_of_int: "round8 (of_int k) = of_int k"
  using round8_fixed[of "k * 100000000"] by simp

lemma round8_numeral [simp]: "round8 (numeral k) = numeral k"
  using round8_of_int[of "numeral k"] by simp

lemma round8_0 [simp]: "round8 0 = 0"
  using round8_of_int[of 0] by simp

lemma round8_1 [simp]: "round8 1 = 1"
  using round8_of_int[of 1] by simp

lemma rub_pairs: "map (replace ''-usd'' ''-rub'') USD_PAIRS = RUB_PAIRS"
  by (simp add: USD_PAIRS_def RUB_PAIRS_def)

section \<open>Candles\<close>

lemma upsert_row_mem: "c \<in> set (upsert_row c rows)"
  by (induction rows) auto

text \<open>
  C6. Two rows of \<open>btc-usd\<close>, at 1200000 and at 1500000. For the five-minute period from
  1200000 to 1500000 the query returns both, the row at the period end included, and
  the candle closes at that row's price with a trade count of 2; the candle of the next
  period, from 1500000, is built from the same row again.
\<close>

theorem period_end_row_is_loaded:
  "value_of (findByPairInRange (period_query ''btc-usd'' 1200000 1500000) boundary_world) =
     Some [price_row ''btc-usd'' 1200000 100 1, price_row ''btc-usd'' 1500000 200 1]
   \<and> candle_tables (snd (aggregateInterval FiveMin 1200000 1500000 boundary_world))
        ''price_history_5min'' = [candle_of ''btc-usd'' 1200000 100 200 100 200 2 150 2]
   \<and> candle_tables (snd (aggregateInterval FiveMin 1500000 1800000 boundary_world))
        ''price_history_5min'' = [candle_of ''btc-usd'' 1500000 200 200 200 200 1 200 1]"
proof -
  have a: "value_of (findByPairInRange (period_query ''btc-usd'' 1200000 1500000) boundary_world) =
     Some [price_row ''btc-usd'' 1200000 100 1, price_row ''btc-usd'' 1500000 200 1]"
    by (simp add: findByPairInRange_def period_query_def boundary_world_def empty_world_def
        price_row_def order_by_def DEFAULT_LIMIT_def MAX_LIMIT_def Let_def)
  have b: "candle_tables (snd (aggregateInterval FiveMin 1200000 1500000 boundary_world))
        ''price_history_5min'' = [candle_of ''btc-usd'' 1200000 100 200 100 200 2 150 2]"
    by (simp add: aggregateInterval_def aggregate_candle_def findByPairInRange_def
        boundary_world_def empty_world_def USD_PAIRS_def RUB_PAIRS_def price_row_def
        order_by_def DEFAULT_LIMIT_def MAX_LIMIT_def Let_def upsertCandle_def build_candle_def
        ohlcv_step_def js_gt_def candle_of_def)
  have c: "candle_tables (snd (aggregateInterval FiveMin 1500000 1800000 boundary_world))
        ''price_history_5min'' = [candle_of ''btc-usd'' 1500000 200 200 200 200 1 200 1]"
    by (simp add: aggregateInterval_def aggregate_candle_def findByPairInRange_def
        boundary_world_def empty_world_def USD_PAIRS_def RUB_PAIRS_def price_row_def
        order_by_def DEFAULT_LIMIT_def MAX_LIMIT_def Let_def upsertCandle_def build_candle_def
        ohlcv_step_def js_gt_def candle_of_def)
  from a b c show ?thesis by simp
qed

text \<open>The query is made without a limit, so the default of 1000 rows applies.\<close>

lemma period_query_limit:
  "findByPairInRange (period_query pair periodStart periodEnd) w = Return prices w'
     \<Longrightarrow> length prices \<le> 1000"
  by (auto simp: findByPairInRange_def period_query_def DEFAULT_LIMIT_def MAX_LIMIT_def Let_def
      split: if_splits)

lemma day_rows_truncated:
  "\<exists>prices. findByPairInRange (period_query ''btc-usd'' 0 86400000) day_world = Return prices day_world
     \<and> length prices = 1000
     \<and> length (filter (\<lambda>r. h_pair r = ''btc-usd'' \<and> 0 \<le> h_timestamp r \<and> h_timestamp r < 86400000)
                  (price_history day_world)) = 1001"
proof -
  let ?rows = "map (\<lambda>i. price_row ''btc-usd'' (int i) 100 1) [0..<1001]"
  have f1: "filter (\<lambda>r. h_pair r = ''btc-usd'') ?rows = ?rows"
    by (rule filter_True) (simp add: price_row_def)
  have f2: "filter (\<lambda>r. 0 \<le> h_timestamp r) ?rows = ?rows"
    by (rule filter_True) (simp add: price_row_def)
  have f3: "filter (\<lambda>r. h_timestamp r \<le> 86400000) ?rows = ?rows"
    by (rule filter_True) (auto simp: price_row_def)
  have f4: "filter (\<lambda>r. h_pair r = ''btc-usd'' \<and> 0 \<le> h_timestamp r \<and> h_timestamp r < 86400000) ?rows = ?rows"
    by (rule filter_True) (auto simp: price_row_def)
  have ph: "price_history day_world = ?rows" and up: "db_up day_world"
    by (simp_all add: day_world_def empty_world_def)
  show ?thesis
    unfolding findByPairInRange_def period_query_def Let_def ph
    using up by (simp add: f1 f2 f3 f4 order_by_def DEFAULT_LIMIT_def MAX_LIMIT_def del: upt_Suc map_upt_Suc)
qed

section \<open>Cursor pagination of candles\<close>

lemma sorted_desc_order_by:
  "sorted_wrt (\<lambda>a b. b \<le> a) (map ts (order_by ts Desc rows))"
proof -
  have "sorted (map (\<lambda>r. - ts r) (sort_key (\<lambda>r. - ts r) rows))"
    by (rule sorted_sort_key)
  thus ?thesis
    by (simp add: order_by_def sorted_wrt_map)
qed

lemma getCandlesWithCursor_eq:
  assumes "db_up w"
  shows "getCandlesWithCursor interval options w =
     Return \<lparr>candles = take (page_limit options) (cursor_query interval options w),
             nextCursor =
               (if page_limit options < length (cursor_query interval options w)
                   \<and> 0 < page_limit options
                then Some (k_timestamp
                        (last (take (page_limit options) (cursor_query interval options w))))
                else None),
             previousCursor =
               (if o_cursor options \<noteq> None
                   \<and> take (page_limit options) (cursor_query interval options w) \<noteq> []
                then Some (k_timestamp
                        (hd (take (page_limit options) (cursor_query interval options w))))
                else None),
             hasMore = (page_limit options < length (cursor_query interval options w))\<rparr> w"
proof (cases "page_limit options < length (cursor_query interval options w)")
  case True
  hence "min (length (cursor_query interval options w)) (Suc (page_limit options))
           = Suc (page_limit options)" by simp
  moreover from True have "cursor_query interval options w \<noteq> []" by auto
  ultimately show ?thesis using True assms
    by (simp add: getCandlesWithCursor_def Let_def page_limit_def[symmetric] min_absorb1)
next
  case False
  hence "take (Suc (page_limit options)) (cursor_query interval options w)
           = take (page_limit options) (cursor_query interval options w)" by simp
  with False assms show ?thesis
    by (simp add: getCandlesWithCursor_def Let_def page_limit_def[symmetric])
qed

text \<open>
  C7, as the code has it. With the database reachable, a cursor query with page size
  \<open>limit\<close> fetches \<open>limit + 1\<close> of the selected rows and reports more rows when it got
  them all; it returns the first \<open>limit\<close> rows; when there are more rows and the page is
  not empty, \<open>nextCursor\<close> is the period start of the last returned row; when a cursor
  was supplied and the page is not empty, \<open>previousCursor\<close> is the period start of the
  first returned row; and without an order the rows come by descending period start.
\<close>

theorem getCandlesWithCursor_page:
  assumes "db_up w"
  shows "\<exists>r. getCandlesWithCursor interval options w = Return r w
     \<and> candles r = take (page_limit options) (cursor_query interval options w)
     \<and> hasMore r = (length (take (page_limit options + 1) (cursor_query interval options w))
                      > page_limit options)
     \<and> nextCursor r =
         (if hasMore r \<and> 0 < page_limit options then Some (k_timestamp (last (candles r)))
          else None)
     \<and> previousCursor r =
         (if o_cursor options \<noteq> None \<and> candles r \<noteq> [] then Some (k_timestamp (hd (candles r)))
          else None)
     \<and> (o_orderBy options = None \<longrightarrow>
          sorted_wrt (\<lambda>a b. b \<le> a) (map k_timestamp (cursor_query interval options w)))"
proof -
  have s: "o_orderBy options = None \<Longrightarrow>
          sorted_wrt (\<lambda>a b. b \<le> a) (map k_timestamp (cursor_query interval options w))"
    by (simp add: cursor_query_def Let_def sorted_desc_order_by)
  have l: "(length (take (page_limit options + 1) (cursor_query interval options w))
              > page_limit options)
           = (page_limit options < length (cursor_query interval options w))"
    by auto
  show ?thesis
    unfolding getCandlesWithCursor_eq[OF assms] l using s by simp
qed

lemma page_rows:
  "cursor_query OneHour (page_options None) page_world = [hour_candle 3, hour_candle 2, hour_candle 1]"
  "cursor_query OneHour (page_options (Some 4)) page_world = [hour_candle 3, hour_candle 2, hour_candle 1]"
  by (simp_all add: cursor_query_def page_options_def page_world_def empty_world_def
        hour_candle_def candle_of_def order_by_def Let_def)

text \<open>
  C7, as stated, fails: candles at period starts 3, 2 and 1 and a page size of 2. The
  query fetches the three rows, drops the extra row, whose period start is 1, and emits
  the period start 2 of the last returned row as \<open>nextCursor\<close>.
\<close>

theorem next_cursor_counterexample:
  "map k_timestamp (take 3 (cursor_query OneHour (page_options None) page_world)) = [3, 2, 1]
   \<and> map_option hasMore (value_of (getCandlesWithCursor OneHour (page_options None) page_world))
       = Some True
   \<and> map_option (map k_timestamp \<circ> candles)
        (value_of (getCandlesWithCursor OneHour (page_options None) page_world)) = Some [3, 2]
   \<and> map_option nextCursor (value_of (getCandlesWithCursor OneHour (page_options None) page_world))
       = Some (Some 2)
   \<and> map_option nextCursor (value_of (getCandlesWithCursor OneHour (page_options None) page_world))
       \<noteq> Some (Some (k_timestamp (take 3 (cursor_query OneHour (page_options None) page_world) ! 2)))"
  by (simp add: getCandlesWithCursor_def page_rows Let_def)
     (simp add: page_options_def page_world_def empty_world_def hour_candle_def candle_of_def)

theorem getCandlesWithCursor_page_witness:
  "db_up page_world \<and> o_orderBy (page_options (Some 4)) = None
   \<and> (\<exists>r. getCandlesWithCursor OneHour (page_options (Some 4)) page_world = Return r page_world
        \<and> map k_timestamp (candles r) = [3, 2] \<and> hasMore r
        \<and> nextCursor r = Some 2 \<and> previousCursor r = Some 3)
   \<and> sorted_wrt (\<lambda>a b. b \<le> a)
        (map k_timestamp (cursor_query OneHour (page_options (Some 4)) page_world))"
proof -
  have h: "db_up page_world" by (simp add: page_world_def empty_world_def)
  have o: "o_orderBy (page_options (Some 4)) = None" "o_cursor (page_options (Some 4)) = Some 4"
    "page_limit (page_options (Some 4)) = 2"
    by (simp_all add: page_options_def page_limit_def)
  from getCandlesWithCursor_page[OF h, of OneHour "page_options (Some 4)"]
  obtain r where r: "getCandlesWithCursor OneHour (page_options (Some 4)) page_world = Return r page_world"
    "candles r = take 2 [hour_candle 3, hour_candle 2, hour_candle 1]"
    "hasMore r = (length (take (2 + 1) [hour_candle 3, hour_candle 2, hour_candle 1]) > 2)"
    "nextCursor r = (if hasMore r \<and> 0 < (2::nat) then Some (k_timestamp (last (candles r))) else None)"
    "previousCursor r = (if Some (4::int) \<noteq> None \<and> candles r \<noteq> [] then Some (k_timestamp (hd (candles r))) else None)"
    "sorted_wrt (\<lambda>a b. b \<le> a) (map k_timestamp (cursor_query OneHour (page_options (Some 4)) page_world))"
    unfolding o page_rows by blast
  have c: "map k_timestamp (candles r) = [3, 2]" "hasMore r"
    using r(2,3) by (simp_all add: hour_candle_def candle_of_def)
  have n: "nextCursor r = Some 2" "previousCursor r = Some 3"
    using r(4,5) c(2) r(2) by (simp_all add: hour_candle_def candle_of_def)
  from r(1) c n have "\<exists>r. getCandlesWithCursor OneHour (page_options (Some 4)) page_world = Return r page_world
        \<and> map k_timestamp (candles r) = [3, 2] \<and> hasMore r
        \<and> nextCursor r = Some 2 \<and> previousCursor r = Some 3"
    by (intro exI[of _ r]) simp
  with h o(1) r(6) show ?thesis by simp
qed

section \<open>Rate limiter\<close>

lemma checkLimit_up [simp]:
  "limiter_up (snd (checkLimit config now rnd clientId endpoint s)) = limiter_up s"
  by (simp add: checkLimit_def Let_def)

lemma checkLimit_windows:
  assumes "enabled config" and "limiter_up s"
  shows "windows (snd (checkLimit config now rnd clientId endpoint s)) (limit_key clientId endpoint)
     = zadd (zremrangebyscore (windows s (limit_key clientId endpoint)) 0 (now - windowMs config))
            now (now, rnd)"
  using assms by (simp add: checkLimit_def Let_def)

lemma checkLimit_result:
  assumes "enabled config" and "limiter_up s"
  shows "fst (checkLimit config now rnd clientId endpoint s) =
     (if maxRequests config
          \<le> int (zcard (zremrangebyscore (windows s (limit_key clientId endpoint)) 0
                          (now - windowMs config)))
      then denied config now
      else \<lparr>allowed = True,
            remaining = max 0 (maxRequests config
               - int (zcard (zremrangebyscore (windows s (limit_key clientId endpoint)) 0
                               (now - windowMs config))) - 1),
            resetTime = now + windowMs config, retryAfter = None\<rparr>)"
  using assms by (simp add: checkLimit_def Let_def denied_def)

lemma checkLimit_keeps:
  assumes "enabled config" and "limiter_up s"
    and "(sc, m) \<in> set (windows s (limit_key clientId endpoint))"
    and "now - windowMs config < sc" and "m \<noteq> (now, rnd)"
  shows "(sc, m) \<in> set (windows (snd (checkLimit config now rnd clientId endpoint s))
                          (limit_key clientId endpoint))"
  using assms(3-5) unfolding checkLimit_windows[OF assms(1,2)]
  by (simp add: zadd_def zremrangebyscore_def in_score_range_def)

lemma checkLimit_records:
  assumes "enabled config" and "limiter_up s"
  shows "(now, (now, rnd)) \<in> set (windows (snd (checkLimit config now rnd clientId endpoint s))
                          (limit_key clientId endpoint))"
  unfolding checkLimit_windows[OF assms] by (simp add: zadd_def)

lemma checkLimits_up [simp]:
  "limiter_up (checkLimits config reqs clientId endpoint s) = limiter_up s"
  by (induction reqs arbitrary: s) simp_all

lemma checkLimits_keeps:
  assumes "enabled config" and "limiter_up s"
    and "(sc, m) \<in> set (windows s (limit_key clientId endpoint))"
    and "now - windowMs config < sc" and "m \<notin> set reqs"
    and "\<forall>r\<in>set reqs. fst r \<le> now"
  shows "(sc, m) \<in> set (windows (checkLimits config reqs clientId endpoint s)
                          (limit_key clientId endpoint))"
  using assms(2,3,5,6)
proof (induction reqs arbitrary: s)
  case Nil
  then show ?case by simp
next
  case (Cons r reqs)
  have "fst r - windowMs config < sc" using Cons.prems(4) assms(4) by simp
  moreover have "m \<noteq> (fst r, snd r)" using Cons.prems(3) by auto
  ultimately have "(sc, m) \<in> set (windows (snd (checkLimit config (fst r) (snd r) clientId endpoint s))
                          (limit_key clientId endpoint))"
    using checkLimit_keeps[OF assms(1) Cons.prems(1) Cons.prems(2)] by blast
  with Cons show ?case by simp
qed

lemma checkLimits_records:
  assumes "enabled config" and "limiter_up s"
    and "\<forall>r\<in>set reqs. now - windowMs config < fst r \<and> fst r \<le> now"
    and "distinct reqs" and "r \<in> set reqs"
  shows "(fst r, r) \<in> set (windows (checkLimits config reqs clientId endpoint s)
                          (limit_key clientId endpoint))"
  using assms(2-5)
proof (induction reqs arbitrary: s)
  case Nil
  then show ?case by simp
next
  case (Cons q reqs)
  let ?s1 = "snd (checkLimit config (fst q) (snd q) clientId endpoint s)"
  have up1: "limiter_up ?s1" using Cons.prems(1) by simp
  show ?case
  proof (cases "r = q")
    case True
    have "(fst q, (fst q, snd q)) \<in> set (windows ?s1 (limit_key clientId endpoint))"
      by (rule checkLimit_records[OF assms(1) Cons.prems(1)])
    moreover have "now - windowMs config < fst q" "q \<notin> set reqs" "\<forall>r\<in>set reqs. fst r \<le> now"
      using Cons.prems by auto
    ultimately have "(fst q, q) \<in> set (windows (checkLimits config reqs clientId endpoint ?s1)
                          (limit_key clientId endpoint))"
      using checkLimits_keeps[OF assms(1) up1, of "fst q" q clientId endpoint now reqs] by simp
    with True show ?thesis by simp
  next
    case False
    with Cons.prems have "r \<in> set reqs" "distinct reqs"
      "\<forall>r\<in>set reqs. now - windowMs config < fst r \<and> fst r \<le> now" by auto
    from Cons.IH[OF up1 this(3,2,1)] show ?thesis by simp
  qed
qed

lemma zcard_window_lower:
  assumes "\<forall>r\<in>set reqs. (fst r, r) \<in> set z \<and> lo < fst r" and "distinct reqs"
  shows "length reqs \<le> zcard (zremrangebyscore z 0 lo)"
proof -
  have "(\<lambda>r. (fst r, r)) ` set reqs \<subseteq> set (zremrangebyscore z 0 lo)"
    using assms(1) by (auto simp: zremrangebyscore_def in_score_range_def)
  hence "card ((\<lambda>r. (fst r, r)) ` set reqs) \<le> card (set (zremrangebyscore z 0 lo))"
    by (intro card_mono) simp_all
  moreover have "card ((\<lambda>r. (fst r, r)) ` set reqs) = card (set reqs)"
    by (intro card_image inj_onI) simp
  moreover have "card (set reqs) = length reqs"
    using assms(2) by (rule distinct_card)
  moreover have "card (set (zremrangebyscore z 0 lo)) \<le> length (zremrangebyscore z 0 lo)"
    by (rule card_length)
  ultimately show ?thesis by (simp add: zcard_def)
qed

text \<open>
  C8, as the code has it. With the limiter enabled and Redis reachable: when the count
  in the window, after entries scored from 0 up to \<open>now - window\<close> are evicted, is at
  least \<open>max\<close>, the check is denied with \<open>remaining\<close> 0, \<open>resetTime\<close> \<open>now + window\<close> and
  \<open>retryAfter\<close> \<open>window\<close>; the current request is added to the window on every check,
  denied or not; and after at least \<open>max\<close> distinct requests made within the window
  that ends at \<open>now\<close>, the next request is denied, with a \<open>retryAfter\<close> of at most the
  window.
\<close>

theorem checkLimit_sliding_window:
  assumes en: "enabled config" and up: "limiter_up s"
    and win: "\<forall>r\<in>set reqs. now - windowMs config < fst r \<and> fst r \<le> now"
    and dis: "distinct reqs" and cnt: "maxRequests config \<le> int (length reqs)"
  shows "(maxRequests config
            \<le> int (zcard (zremrangebyscore (windows s (limit_key clientId endpoint)) 0
                            (now - windowMs config)))
          \<longrightarrow> fst (checkLimit config now rnd clientId endpoint s) = denied config now)
     \<and> (now, (now, rnd)) \<in> set (windows (snd (checkLimit config now rnd clientId endpoint s))
                                  (limit_key clientId endpoint))
     \<and> fst (checkLimit config now rnd clientId endpoint
              (checkLimits config reqs clientId endpoint s)) = denied config now
     \<and> (\<forall>w. retryAfter (denied config now) = Some w \<longrightarrow> w \<le> windowMs config)"
proof -
  let ?s = "checkLimits config reqs clientId endpoint s"
  have up': "limiter_up ?s" using up by simp
  have "\<forall>r\<in>set reqs. (fst r, r) \<in> set (windows ?s (limit_key clientId endpoint))
            \<and> now - windowMs config < fst r"
    using checkLimits_records[OF en up win dis] win by blast
  from zcard_window_lower[OF this dis] cnt
  have "maxRequests config
            \<le> int (zcard (zremrangebyscore (windows ?s (limit_key clientId endpoint)) 0
                            (now - windowMs config)))"
    by linarith
  hence run: "fst (checkLimit config now rnd clientId endpoint ?s) = denied config now"
    by (simp add: checkLimit_result[OF en up'])
  show ?thesis
    using run checkLimit_records[OF en up]
    by (simp add: checkLimit_result[OF en up] denied_def)
qed

text \<open>
  C8, as stated, fails: with at most one request a minute and one request in the
  window, a second request is denied and is added to the window all the same.
\<close>

theorem denied_request_is_recorded:
  "zcard (zremrangebyscore (windows one_request_store ''ratelimit:client'') 0 (2000 - 60000)) = 1
   \<and> fst (checkLimit one_per_minute 2000 ''b'' ''client'' None one_request_store)
       = \<lparr>allowed = False, remaining = 0, resetTime = 62000, retryAfter = Some 60000\<rparr>
   \<and> windows (snd (checkLimit one_per_minute 2000 ''b'' ''client'' None one_request_store))
        ''ratelimit:client'' = [(2000, (2000, ''b'')), (1000, (1000, ''a''))]"
  by (simp add: checkLimit_def one_per_minute_def one_request_store_def empty_store_def
      limit_key_def RATE_LIMIT_PREFIX_def zremrangebyscore_def zadd_def zcard_def
      in_score_range_def Let_def)

theorem checkLimit_sliding_window_witness:
  "enabled one_per_minute \<and> limiter_up empty_store
   \<and> maxRequests one_per_minute \<le> int (length [(1000 :: int, ''a'')])
   \<and> fst (checkLimit one_per_minute 1000 ''a'' ''client'' None empty_store)
        = \<lparr>allowed = True, remaining = 0, resetTime = 61000, retryAfter = None\<rparr>
   \<and> maxRequests one_per_minute
        \<le> int (zcard (zremrangebyscore (windows one_request_store ''ratelimit:client'') 0
                        (2000 - windowMs one_per_minute)))
   \<and> fst (checkLimit one_per_minute 2000 ''b'' ''client'' None one_request_store)
        = denied one_per_minute 2000
   \<and> fst (checkLimit one_per_minute 2000 ''b'' ''client'' None
             (checkLimits one_per_minute [(1000, ''a'')] ''client'' None empty_store))
        = \<lparr>allowed = False, remaining = 0, resetTime = 62000, retryAfter = Some 60000\<rparr>
   \<and> retryAfter (denied one_per_minute 2000) = Some 60000
   \<and> (60000 :: int) \<le> windowMs one_per_minute"
proof -
  have en: "enabled one_per_minute" by (simp add: one_per_minute_def)
  have up: "limiter_up empty_store" "limiter_up one_request_store"
    by (simp_all add: empty_store_def one_request_store_def)
  have win: "\<forall>r\<in>set [(1000 :: int, ''a'')]. 2000 - windowMs one_per_minute < fst r \<and> fst r \<le> 2000"
    by (simp add: one_per_minute_def)
  have dis: "distinct [(1000 :: int, ''a'')]" by simp
  have cnt: "maxRequests one_per_minute \<le> int (length [(1000 :: int, ''a'')])"
    by (simp add: one_per_minute_def)
  have c1: "maxRequests one_per_minute
        \<le> int (zcard (zremrangebyscore (windows one_request_store ''ratelimit:client'') 0
                        (2000 - windowMs one_per_minute)))"
    by (simp add: one_per_minute_def one_request_store_def empty_store_def zremrangebyscore_def
        zcard_def in_score_range_def)
  have k: "limit_key ''client'' None = ''ratelimit:client''"
    by (simp add: limit_key_def RATE_LIMIT_PREFIX_def)
  have first: "fst (checkLimit one_per_minute 1000 ''a'' ''client'' None empty_store)
        = \<lparr>allowed = True, remaining = 0, resetTime = 61000, retryAfter = None\<rparr>"
    by (simp add: checkLimit_def one_per_minute_def empty_store_def zremrangebyscore_def
        zcard_def Let_def)
  note a = checkLimit_sliding_window[OF en up(1) win dis cnt, of "''client''" None "''b''"]
  note b = checkLimit_sliding_window[OF en up(2) win dis cnt, of "''client''" None "''b''"]
  have d: "denied one_per_minute 2000
      = \<lparr>allowed = False, remaining = 0, resetTime = 62000, retryAfter = Some 60000\<rparr>"
    by (simp add: denied_def one_per_minute_def)
  show ?thesis
    using a b c1 en up(1) cnt first unfolding k d
    by (simp add: one_per_minute_def)
qed

section \<open>Fiat rate\<close>

lemma js_gt_zero: "\<not> isNaN r \<Longrightarrow> \<not> js_le r (Num 0) \<Longrightarrow> js_gt r (Num 0)"
  by (cases r) (simp_all add: js_gt_def)

lemma js_gt_not_NaN: "js_gt r (Num 0) \<Longrightarrow> \<not> isNaN r"
  by (cases r) (simp_all add: js_gt_def)

lemma fetchRate_success:
  "fetchRate now (svc, env) = (None, svc', env') \<Longrightarrow> js_gt (cachedRate svc') (Num 0)"
  by (auto simp: fetchRate_def Let_def js_gt_zero split: cbr_response.splits if_splits)

lemma fetch_attempts_success:
  "fetch_attempts n now (svc, env) = (True, svc', env') \<Longrightarrow> js_gt (cachedRate svc') (Num 0)"
proof (induction n arbitrary: svc env)
  case 0
  then show ?case by simp
next
  case (Suc n)
  obtain e svc1 env1 where f: "fetchRate now (svc, env) = (e, svc1, env1)"
    by (cases "fetchRate now (svc, env)") auto
  show ?case
  proof (cases e)
    case None
    with f Suc.prems have "svc' = svc1\<lparr>consecutiveFailures := 0, lastError := None\<rparr>" by simp
    moreover from f None have "js_gt (cachedRate svc1) (Num 0)" by (simp add: fetchRate_success)
    ultimately show ?thesis by simp
  next
    case (Some msg)
    with f Suc.prems have "fetch_attempts n now
        (svc1\<lparr>lastError := Some msg, consecutiveFailures := consecutiveFailures svc1 + 1\<rparr>, env1)
        = (True, svc', env')" by simp
    from Suc.IH[OF this] show ?thesis .
  qed
qed

lemma getRate_value:
  "fst (getRate now (svc, env)) =
     (case redis_rate env of
        Some rate \<Rightarrow> rate
      | None \<Rightarrow>
          if js_gt (cachedRate svc) (Num 0) then cachedRate svc
          else if fst (fetchRateWithRetry now (svc, env))
               then cachedRate (fst (snd (fetchRateWithRetry now (svc, env))))
               else Num FALLBACK_RATE)"
proof -
  obtain ok svc' env' where f: "fetchRateWithRetry now (svc, env) = (ok, svc', env')"
    by (cases "fetchRateWithRetry now (svc, env)") auto
  have "ok \<Longrightarrow> js_gt (cachedRate svc') (Num 0)"
    using f fetch_attempts_success[of "retryAttempts svc" now svc env svc' env']
    by (simp add: fetchRateWithRetry_def)
  thus ?thesis
    by (auto simp: getRate_def redis_rate_def Let_def f split: option.splits)
qed

lemma getRate_gt: "js_gt (fst (getRate now (svc, env))) (Num 0)"
proof -
  obtain ok svc' env' where f: "fetchRateWithRetry now (svc, env) = (ok, svc', env')"
    by (cases "fetchRateWithRetry now (svc, env)") auto
  have "ok \<Longrightarrow> js_gt (cachedRate svc') (Num 0)"
    using f fetch_attempts_success[of "retryAttempts svc" now svc env svc' env']
    by (simp add: fetchRateWithRetry_def)
  thus ?thesis
    unfolding getRate_value
    by (auto simp: redis_rate_def f FALLBACK_RATE_def js_gt_def split: option.splits if_splits)
qed

text \<open>
  C10. \<open>getRate\<close> always returns, and what it returns is greater than 0 and not NaN: the
  rate cached in Redis when that is positive, else the rate cached in memory when that
  is positive, else the rate of a successful re-fetch, else the fallback 90. So when
  the USD row of a result is written, \<open>savePrices\<close> with this rate goes on to write the
  RUB row.
\<close>

theorem getRate_positive:
  "js_gt (fst (getRate now (svc, env))) (Num 0)
   \<and> \<not> isNaN (fst (getRate now (svc, env)))
   \<and> fst (getRate now (svc, env)) =
       (case redis_rate env of
          Some rate \<Rightarrow> rate
        | None \<Rightarrow>
            if js_gt (cachedRate svc) (Num 0) then cachedRate svc
            else if fst (fetchRateWithRetry now (svc, env))
                 then cachedRate (fst (snd (fetchRateWithRetry now (svc, env))))
                 else Num FALLBACK_RATE)
   \<and> (db_up w \<longrightarrow>
        (\<exists>rub. price_history (world_of (savePrices (fst (getRate now (svc, env))) vwap w)) =
                  price_history w @ [usd_row vwap, rub]
             \<and> h_pair rub = replace ''-usd'' ''-rub'' (v_pair vwap)
             \<and> h_price rub = toFixed8 (js_mul (v_price vwap) (fst (getRate now (svc, env))))))"
proof -
  have g: "js_gt (fst (getRate now (svc, env))) (Num 0)" by (rule getRate_gt)
  have r: "db_up w \<Longrightarrow>
        (\<exists>rub. price_history (world_of (savePrices (fst (getRate now (svc, env))) vwap w)) =
                  price_history w @ [usd_row vwap, rub]
             \<and> h_pair rub = replace ''-usd'' ''-rub'' (v_pair vwap)
             \<and> h_price rub = toFixed8 (js_mul (v_price vwap) (fst (getRate now (svc, env)))))"
    using g by (simp add: savePrices_def create_def cachePrice_def usd_row_def Let_def)
  from g r js_gt_not_NaN[OF g] getRate_value[of now svc env] show ?thesis by blast
qed

theorem getRate_positive_witness:
  "db_up empty_world
   \<and> fst (getRate 5000 (new_service, offline_env)) = Num 90
   \<and> consecutiveFailures (fst (snd (getRate 5000 (new_service, offline_env)))) = 3
   \<and> js_gt (fst (getRate 5000 (new_service, offline_env))) (Num 0)
   \<and> map h_pair (price_history (world_of
        (savePrices (fst (getRate 5000 (new_service, offline_env))) vwap_100 empty_world)))
      = [''btc-usd'', ''btc-rub'']
   \<and> map h_price (price_history (world_of
        (savePrices (fst (getRate 5000 (new_service, offline_env))) vwap_100 empty_world)))
      = [Num 100, Num 9000]"
proof -
  have h: "db_up empty_world" by (simp add: empty_world_def)
  have f: "fetchRateWithRetry 5000 (new_service, offline_env)
      = (False, new_service\<lparr>lastError := Some ''fetch failed'', consecutiveFailures := 3\<rparr>,
         offline_env\<lparr>http_calls := 3\<rparr>)"
    by (simp add: fetchRateWithRetry_def new_service_def offline_env_def fetchRate_def
        numeral_3_eq_3 Let_def)
  have c: "consecutiveFailures (fst (snd (getRate 5000 (new_service, offline_env)))) = 3"
    by (simp add: getRate_def f Let_def) (simp add: new_service_def offline_env_def js_gt_def)
  have v: "redis_rate offline_env = None" "\<not> js_gt (cachedRate new_service) (Num 0)"
    by (simp_all add: redis_rate_def offline_env_def new_service_def js_gt_def)
  note t = getRate_positive[of 5000 new_service offline_env empty_world vwap_100]
  from t have g: "js_gt (fst (getRate 5000 (new_service, offline_env))) (Num 0)" by blast
  from t have e: "fst (getRate 5000 (new_service, offline_env)) = Num 90"
    by (simp add: v f FALLBACK_RATE_def)
  from t h obtain rub where
    r: "price_history (world_of (savePrices (fst (getRate 5000 (new_service, offline_env)))
            vwap_100 empty_world)) = price_history empty_world @ [usd_row vwap_100, rub]"
       "h_pair rub = replace ''-usd'' ''-rub'' (v_pair vwap_100)"
       "h_price rub = toFixed8 (js_mul (v_price vwap_100)
                         (fst (getRate 5000 (new_service, offline_env))))"
    by blast
  have p: "map h_pair (price_history (world_of
        (savePrices (fst (getRate 5000 (new_service, offline_env))) vwap_100 empty_world)))
      = [''btc-usd'', ''btc-rub'']"
    unfolding r(1) using r(2) by (simp add: empty_world_def usd_row_def vwap_100_def)
  have q: "map h_price (price_history (world_of
        (savePrices (fst (getRate 5000 (new_service, offline_env))) vwap_100 empty_world)))
      = [Num 100, Num 9000]"
    unfolding r(1) using r(3) unfolding e
    by (simp add: empty_world_def usd_row_def vwap_100_def)
  from h e c g p q show ?thesis by simp
qed

end
